theory Spec2Isabelle
  imports Main "HOL-Library.Sublist" "HOL-Library.Multiset"
begin

section \<open>JavaScript property lookup on object literals\<close>

text \<open>
  The lookup tables of the program are object literals read with bracket access,
  \<^verbatim>\<open>table[key]\<close>. An object literal inherits from \<^verbatim>\<open>Object.prototype\<close>, so bracket access
  has three outcomes: the key is an own property of the literal (the table entry), the key
  names a member inherited from \<^verbatim>\<open>Object.prototype\<close> (a built-in function, or the prototype
  object itself for \<^verbatim>\<open>__proto__\<close>), or the key is absent and the access yields
  \<^verbatim>\<open>undefined\<close>. The twelve inherited names are those ECMAScript (with its Annex B)
  puts on \<^verbatim>\<open>Object.prototype\<close>.
\<close>

definition objectPrototypeKeys :: "string list" where
  "objectPrototypeKeys =
     [''constructor'', ''__defineGetter__'', ''__defineSetter__'', ''hasOwnProperty'',
      ''__lookupGetter__'', ''__lookupSetter__'', ''isPrototypeOf'', ''propertyIsEnumerable'',
      ''toString'', ''valueOf'', ''__proto__'', ''toLocaleString'']"

datatype 'a property = Own 'a | Inherited string | Absent

definition getProp :: "(string \<times> 'a) list \<Rightarrow> string \<Rightarrow> 'a property" where
  "getProp obj k =
     (case map_of obj k of
        Some v \<Rightarrow> Own v
      | None \<Rightarrow> if k \<in> set objectPrototypeKeys then Inherited k else Absent)"

text \<open>
  The text a template literal produces for an inherited member: the source text of a
  built-in function as V8 prints it, and \<^verbatim>\<open>[object Object]\<close> for the prototype object.
  (The exact spelling of a built-in function's text is left to the engine.)
\<close>

definition memberText :: "string \<Rightarrow> string" where
  "memberText k =
     (if k = ''__proto__'' then ''[object Object]''
      else ''function '' @ (if k = ''constructor'' then ''Object'' else k) @ ''() { [native code] }'')"

text \<open>
  \<^verbatim>\<open>${table[key] || fallback}\<close> for a table of strings: an own entry is used unless it is
  the empty string (falsy), an inherited member is truthy and is printed, an absent key
  gives the fallback.
\<close>

definition orElse :: "string property \<Rightarrow> string \<Rightarrow> string" where
  "orElse p d =
     (case p of
        Own v \<Rightarrow> if v = [] then d else v
      | Inherited k \<Rightarrow> memberText k
      | Absent \<Rightarrow> d)"

section \<open>Data model (db/schema/articles)\<close>

record Structure =
  conclusion :: bool
  faqSection :: bool
  tables :: bool
  h3Headings :: bool
  lists' :: bool
  italics :: bool
  bold :: bool
  quotes :: bool
  keyTakeaways :: bool

record ArticleSettings =
  articleType :: string
  articleSize :: string
  tone :: string
  pointOfView :: string
  readability :: string
  aiCleaning :: string
  structure' :: Structure
  language :: string

text \<open>A row of the \<^verbatim>\<open>articles\<close> table; timestamps are milliseconds since the epoch.\<close>

record Article =
  id' :: string
  userId :: string
  title :: string
  content :: string
  keywords' :: string
  settings :: ArticleSettings
  createdAt :: int
  updatedAt :: int

text \<open>\<^verbatim>\<open>interface PromptData extends ArticleSettings\<close>\<close>

record PromptData = ArticleSettings +
  title :: string
  keywords' :: string

section \<open>The prompt builder (lib/prompt-builder)\<close>

datatype error = TypeError

definition languageNames :: "(string \<times> string) list" where
  "languageNames =
     [(''en'', ''English''), (''es'', ''Spanish''), (''fr'', ''French''), (''de'', ''German''),
      (''it'', ''Italian''), (''pt'', ''Portuguese''), (''nl'', ''Dutch''), (''pl'', ''Polish''),
      (''ru'', ''Russian''), (''ja'', ''Japanese''), (''ko'', ''Korean''), (''zh'', ''Chinese''),
      (''ar'', ''Arabic''), (''hi'', ''Hindi''), (''tr'', ''Turkish''), (''sv'', ''Swedish''),
      (''da'', ''Danish''), (''no'', ''Norwegian''), (''fi'', ''Finnish'')]"

record SizeReq =
  words :: string
  h2 :: string

definition sizeRequirements :: "(string \<times> SizeReq) list" where
  "sizeRequirements =
     [(''X-Small'', \<lparr>words = ''600-1200'', h2 = ''2-5''\<rparr>),
      (''Small'', \<lparr>words = ''1200-2400'', h2 = ''5-8''\<rparr>),
      (''Medium'', \<lparr>words = ''2400-3600'', h2 = ''9-12''\<rparr>),
      (''Large'', \<lparr>words = ''3600-5200'', h2 = ''13-16''\<rparr>)]"

text \<open>
  \<^verbatim>\<open>${sizeReq.words}\<close>: reading a field of the looked-up size entry inside a template.
  On \<^verbatim>\<open>undefined\<close> the read throws a TypeError; an inherited member has no such field,
  so the read gives \<^verbatim>\<open>undefined\<close>, printed as that word.
\<close>

definition fieldText :: "(SizeReq \<Rightarrow> string) \<Rightarrow> SizeReq property \<Rightarrow> error + string" where
  "fieldText f p =
     (case p of
        Own r \<Rightarrow> Inr (f r)
      | Inherited k \<Rightarrow> Inr ''undefined''
      | Absent \<Rightarrow> Inl TypeError)"

definition toneInstructions :: "(string \<times> string) list" where
  "toneInstructions =
     [(''Friendly'', ''Use a warm, approachable, and conversational tone''),
      (''Professional'', ''Maintain a formal, business-appropriate tone''),
      (''Informational'', ''Focus on providing clear, educational information''),
      (''Transactional'', ''Include clear calls-to-action and conversion-focused language''),
      (''Inspirational'', ''Use motivational and uplifting language''),
      (''Neutral'', ''Maintain an objective and unbiased tone''),
      (''Witty'', ''Include clever humor and wordplay where appropriate''),
      (''Casual'', ''Use informal, relaxed language''),
      (''Authoritative'', ''Demonstrate expertise and confidence''),
      (''Encouraging'', ''Use supportive and motivating language''),
      (''Persuasive'', ''Focus on convincing the reader of your viewpoint''),
      (''Poetic'', ''Use literary and expressive language'')]"

definition povInstructions :: "(string \<times> string) list" where
  \<open>povInstructions =
     [(''First person singular'', ''Write from "I", "me", "my", "mine" perspective''),
      (''First person plural'', ''Write from "we", "us", "our", "ours" perspective''),
      (''Second person'', ''Write from "you", "your", "yours" perspective''),
      (''Third person'', ''Write from "he", "she", "it", "they" perspective'')]\<close>

definition readabilityInstructions :: "(string \<times> string) list" where
  "readabilityInstructions =
     [(''5th grade'', ''Use simple vocabulary and short sentences (11-year-old reading level)''),
      (''6th grade'', ''Use conversational language with moderate complexity''),
      (''7th grade'', ''Use fairly easy to read language with some complexity''),
      (''8th & 9th grade'', ''Use easily understood language with moderate complexity''),
      (''10th to 12th grade'', ''Use fairly difficult language with complex sentences''),
      (''College'', ''Use difficult language with academic vocabulary''),
      (''College graduate'', ''Use very difficult language with sophisticated vocabulary''),
      (''Professional'', ''Use extremely difficult language specific to the industry'')]"

definition cleaningInstructions :: "(string \<times> string) list" where
  \<open>cleaningInstructions =
     [(''Basic AI Words Removal'',
       ''Avoid common AI phrases like "in conclusion", "furthermore", "moreover", "in addition", etc.''),
      (''Extended AI Words Removal'',
       ''Eliminate all detectable AI patterns and phrases. Write like a human expert would naturally write.'')]\<close>

text \<open>The opening template (source lines 58 to 67), with its five interpolations.\<close>

definition promptHeader :: "string \<Rightarrow> string \<Rightarrow> string \<Rightarrow> string \<Rightarrow> string \<Rightarrow> string" where
  "promptHeader targetLanguage t k w h =
     ''You are an expert SEO content writer. Write a comprehensive, SEO-optimized article in ''
     @ targetLanguage @ '' based on the following specifications:\<newline>\<newline>''
     @ ''TITLE: '' @ t @ ''\<newline>''
     @ ''KEYWORDS: '' @ k @ ''\<newline>\<newline>''
     @ ''ARTICLE REQUIREMENTS:\<newline>''
     @ ''- Target Language: '' @ targetLanguage @ ''\<newline>''
     @ ''- Word Count: '' @ w @ '' words\<newline>''
     @ ''- H2 Headings: '' @ h @ '' sections\<newline>''
     @ ''- Main Keywords: '' @ k"

text \<open>The five optional clauses (source lines 69 to 130), each the text one \<^verbatim>\<open>if\<close> appends.\<close>

definition articleTypeClause :: "string \<Rightarrow> string" where
  "articleTypeClause v = (if v \<noteq> ''None'' then ''\<newline>- Article Type: '' @ v else [])"

definition toneClause :: "string \<Rightarrow> string" where
  "toneClause v =
     (if v \<noteq> ''None'' then ''\<newline>- Tone: '' @ orElse (getProp toneInstructions v) v else [])"

definition povClause :: "string \<Rightarrow> string" where
  "povClause v =
     (if v \<noteq> ''None'' then ''\<newline>- Point of View: '' @ orElse (getProp povInstructions v) v
      else [])"

definition readabilityClause :: "string \<Rightarrow> string" where
  "readabilityClause v =
     (if v \<noteq> ''None''
      then ''\<newline>- Readability Level: '' @ orElse (getProp readabilityInstructions v) v
      else [])"

definition cleaningClause :: "string \<Rightarrow> string" where
  "cleaningClause v =
     (if v \<noteq> ''No AI Words Removal''
      then ''\<newline>- Content Style: '' @ orElse (getProp cleaningInstructions v) v
      else [])"

text \<open>
  The structure step (source lines 133 to 148): the heading is appended first, then nine
  conditional pushes build \<^verbatim>\<open>structureItems\<close>, joined with a comma and a space.
\<close>

definition push_if :: "bool \<Rightarrow> 'a \<Rightarrow> 'a list \<Rightarrow> 'a list" where
  "push_if b x xs = (if b then xs @ [x] else xs)"

definition structureItems :: "Structure \<Rightarrow> string list" where
  "structureItems s =
     (push_if (keyTakeaways s) ''Key takeaways section''
     (push_if (quotes s) ''Relevant quotes''
     (push_if (bold s) ''Bold text for emphasis''
     (push_if (italics s) ''Italic text for emphasis''
     (push_if (lists' s) ''Bulleted or numbered lists''
     (push_if (h3Headings s) ''H3 subheadings within sections''
     (push_if (tables s) ''Data tables''
     (push_if (faqSection s) ''FAQ section''
     (push_if (conclusion s) ''Conclusion section'' [])))))))))"

fun join :: "string \<Rightarrow> string list \<Rightarrow> string" where
  "join sep [] = []"
| "join sep [x] = x"
| "join sep (x # y # ys) = x @ sep @ join sep (y # ys)"

definition structureRequirements :: "Structure \<Rightarrow> string" where
  "structureRequirements s =
     ''\<newline>\<newline>STRUCTURE REQUIREMENTS:''
     @ (if length (structureItems s) > 0
        then ''\<newline>- Include: '' @ join '', '' (structureItems s) else [])"

text \<open>The closing template (source lines 150 to 170).\<close>

definition promptFooter :: "string \<Rightarrow> string \<Rightarrow> string" where
  "promptFooter h targetLanguage =
     ''\<newline>\<newline>CONTENT GUIDELINES:\<newline>''
     @ ''1. Create a compelling, SEO-friendly title that includes the main keywords\<newline>''
     @ ''2. Write an engaging introduction that hooks the reader and includes the primary keywords\<newline>''
     @ ''3. Develop '' @ h @ '' well-structured H2 sections with relevant content\<newline>''
     @ ''4. Naturally incorporate the keywords throughout the content ('' @ targetLanguage @ '' language)\<newline>''
     @ ''5. Ensure proper heading hierarchy (H1 > H2 > H3)\<newline>''
     @ ''6. Include meta descriptions and SEO best practices\<newline>''
     @ ''7. Write unique, valuable content that provides real insights\<newline>''
     @ ''8. Use proper grammar, spelling, and punctuation in '' @ targetLanguage @ ''\<newline>''
     @ ''9. Ensure the content flows logically and is easy to read\<newline>''
     @ ''10. Include internal/external linking opportunities where relevant\<newline>''
     @ ''\<newline>''
     @ ''SEO REQUIREMENTS:\<newline>''
     @ ''- Keyword density: 1-2% for main keywords\<newline>''
     @ ''- Include LSI (Latent Semantic Indexing) keywords naturally\<newline>''
     @ ''- Use semantic HTML5 structure\<newline>''
     @ ''- Include meta title (50-60 characters) and description (150-160 characters)\<newline>''
     @ ''- Ensure mobile readability\<newline>''
     @ ''- Include relevant entities and concepts\<newline>''
     @ ''\<newline>''
     @ ''Please write the complete article now. Start with the title, followed by the meta description, then the full article content. Make sure to follow all the specified requirements and create high-quality, engaging content that ranks well in search engines.''"

text \<open>
  \<^verbatim>\<open>buildArticlePrompt\<close>. The only statement that can throw is the first read of
  \<^verbatim>\<open>sizeReq.words\<close> in the opening template; everything after it is string building.
\<close>

definition buildArticlePrompt :: "PromptData \<Rightarrow> error + string" where
  "buildArticlePrompt data =
     (let targetLanguage = orElse (getProp languageNames (language data)) ''English'';
          sizeReq = getProp sizeRequirements (articleSize data)
      in case fieldText words sizeReq of
           Inl e \<Rightarrow> Inl e
         | Inr w \<Rightarrow>
             (case fieldText h2 sizeReq of
                Inl e \<Rightarrow> Inl e
              | Inr h \<Rightarrow>
                  Inr (promptHeader targetLanguage (title data) (keywords' data) w h
                       @ articleTypeClause (articleType data)
                       @ toneClause (tone data)
                       @ povClause (pointOfView data)
                       @ readabilityClause (readability data)
                       @ cleaningClause (aiCleaning data)
                       @ structureRequirements (structure' data)
                       @ promptFooter h targetLanguage)))"

section \<open>The token ceiling (api/generate)\<close>

text \<open>
  \<^verbatim>\<open>getMaxTokens\<close> returns \<^verbatim>\<open>tokenLimits[articleSize] || 4000\<close>: a number, or the
  inherited member when the key names one (a truthy value, so the fallback is not taken).
\<close>

datatype jsvalue = Number nat | ProtoMember string

definition tokenLimits :: "(string \<times> nat) list" where
  "tokenLimits = [(''X-Small'', 2000), (''Small'', 4000), (''Medium'', 6000), (''Large'', 8000)]"

definition getMaxTokens :: "string \<Rightarrow> jsvalue" where
  "getMaxTokens sz =
     (case getProp tokenLimits sz of
        Own n \<Rightarrow> if n = 0 then Number 4000 else Number n
      | Inherited k \<Rightarrow> ProtoMember k
      | Absent \<Rightarrow> Number 4000)"

section \<open>Errors thrown inside a route handler\<close>

text \<open>
  What a \<^verbatim>\<open>catch\<close> block of the routes can tell about a thrown value: whether it is a
  \<^verbatim>\<open>ZodError\<close>, and otherwise the \<^verbatim>\<open>error.type\<close> it carries (when it has an
  \<^verbatim>\<open>error\<close> property with a type) and its \<^verbatim>\<open>code\<close> (when it has one).
\<close>

datatype thrown = ZodError | Thrown "string option" "string option"

text \<open>A JSON response: the body of a 200 answer, or a status with its error message.\<close>

datatype 'a response = Json 'a | Failure nat string

section \<open>The articles table\<close>

text \<open>
  The table is the list of its rows; \<^verbatim>\<open>id\<close> is the primary key. A statement either
  fails as a whole with the fault the driver raises (the table is then unchanged), or runs.
\<close>

definition selectById :: "thrown option \<Rightarrow> Article list \<Rightarrow> string \<Rightarrow> thrown + Article list" where
  "selectById fault rows articleId =
     (case fault of
        Some e \<Rightarrow> Inl e
      | None \<Rightarrow> Inr (take 1 (filter (\<lambda>a. id' a = articleId) rows)))"

definition deleteById :: "thrown option \<Rightarrow> Article list \<Rightarrow> string \<Rightarrow> thrown + (string list \<times> Article list)" where
  "deleteById fault rows articleId =
     (case fault of
        Some e \<Rightarrow> Inl e
      | None \<Rightarrow> Inr (map id' (filter (\<lambda>a. id' a = articleId) rows),
                    filter (\<lambda>a. id' a \<noteq> articleId) rows))"

definition insertArticle :: "thrown option \<Rightarrow> Article list \<Rightarrow> Article \<Rightarrow> thrown + Article list" where
  "insertArticle fault rows a =
     (case fault of
        Some e \<Rightarrow> Inl e
      | None \<Rightarrow>
          if id' a \<in> set (map id' rows) then Inl (Thrown None (Some ''23505''))
          else Inr (rows @ [a]))"

section \<open>The single-article routes (api/articles/[id])\<close>

text \<open>
  \<^verbatim>\<open>session?.user?.id\<close> is the signed-in user's id, if any. Both handlers select on
  \<^verbatim>\<open>eq(articles.id, articleId)\<close> alone; the session's user id is read for the log line only.
\<close>

definition signedIn :: "string option \<Rightarrow> bool" where
  "signedIn session = (case session of None \<Rightarrow> False | Some uid \<Rightarrow> uid \<noteq> [])"

definition GET_article ::
    "string option \<Rightarrow> thrown option \<Rightarrow> string \<Rightarrow> Article list \<Rightarrow> Article response" where
  "GET_article session fault articleId rows =
     (if \<not> signedIn session then Failure 401 ''Unauthorized''
      else if articleId = [] then Failure 400 ''Article ID is required''
      else case selectById fault rows articleId of
             Inl e \<Rightarrow> Failure 500 ''Failed to fetch article''
           | Inr article \<Rightarrow>
               (case article of
                  [] \<Rightarrow> Failure 404 ''Article not found or you don't have permission to access it''
                | a # rest \<Rightarrow> Json a))"

definition DELETE_article ::
    "string option \<Rightarrow> thrown option \<Rightarrow> string \<Rightarrow> Article list \<Rightarrow> bool response \<times> Article list" where
  "DELETE_article session fault articleId rows =
     (if \<not> signedIn session then (Failure 401 ''Unauthorized'', rows)
      else if articleId = [] then (Failure 400 ''Article ID is required'', rows)
      else case deleteById fault rows articleId of
             Inl e \<Rightarrow> (Failure 500 ''Failed to delete article'', rows)
           | Inr (deleteResult, rows') \<Rightarrow>
               if length deleteResult = 0
               then (Failure 404 ''Article not found or you don't have permission to delete it'', rows')
               else (Json True, rows'))"

text \<open>The operations of the specification, as these routes give them to a signed-in owner.\<close>

definition getById :: "Article list \<Rightarrow> string \<Rightarrow> string \<Rightarrow> Article response" where
  "getById rows articleId ownerId = GET_article (Some ownerId) None articleId rows"

definition deleteById_owner :: "Article list \<Rightarrow> string \<Rightarrow> string \<Rightarrow> bool response \<times> Article list" where
  "deleteById_owner rows articleId ownerId = DELETE_article (Some ownerId) None articleId rows"

section \<open>Sample data\<close>

definition noStructure :: Structure where
  "noStructure =
     \<lparr>conclusion = False, faqSection = False, tables = False, h3Headings = False, lists' = False,
      italics = False, bold = False, quotes = False, keyTakeaways = False\<rparr>"

definition plainSettings :: ArticleSettings where
  "plainSettings =
     \<lparr>articleType = ''None'', articleSize = ''Small'', tone = ''None'', pointOfView = ''None'',
      readability = ''None'', aiCleaning = ''No AI Words Removal'', structure' = noStructure,
      language = ''en''\<rparr>"

definition aliceArticle :: Article where
  "aliceArticle =
     \<lparr>id' = ''a1'', userId = ''alice'', Article.title = ''Recipe'', content = ''Text'',
      Article.keywords' = ''food'', settings = plainSettings, createdAt = 1000, updatedAt = 1000\<rparr>"

section \<open>The request schema (api/generate)\<close>

text \<open>The enumerations of \<^verbatim>\<open>generateRequestSchema\<close>.\<close>

definition articleTypeValues :: "string list" where
  "articleTypeValues =
     [''None'', ''How-to guide'', ''Listicle'', ''Product review'', ''News'', ''Comparison'',
      ''Case study'', ''Opinion piece'', ''Tutorial'', ''Roundup post'', ''Q&A page'']"

definition articleSizeValues :: "string list" where
  "articleSizeValues = [''X-Small'', ''Small'', ''Medium'', ''Large'']"

definition toneValues :: "string list" where
  "toneValues =
     [''None'', ''Friendly'', ''Professional'', ''Informational'', ''Transactional'',
      ''Inspirational'', ''Neutral'', ''Witty'', ''Casual'', ''Authoritative'', ''Encouraging'',
      ''Persuasive'', ''Poetic'']"

definition pointOfViewValues :: "string list" where
  "pointOfViewValues =
     [''None'', ''First person singular'', ''First person plural'', ''Second person'',
      ''Third person'']"

definition readabilityValues :: "string list" where
  "readabilityValues =
     [''None'', ''5th grade'', ''6th grade'', ''7th grade'', ''8th & 9th grade'',
      ''10th to 12th grade'', ''College'', ''College graduate'', ''Professional'']"

definition aiCleaningValues :: "string list" where
  "aiCleaningValues =
     [''No AI Words Removal'', ''Basic AI Words Removal'', ''Extended AI Words Removal'']"

text \<open>
  \<^verbatim>\<open>generateRequestSchema.parse\<close> accepts a body exactly when the title has 1 to 200
  characters, the keywords 1 to 500, each enumerated field holds one of its values and the
  language is not empty (the structure flags are booleans by their type).
\<close>

definition generateRequestSchema :: "PromptData \<Rightarrow> bool" where
  "generateRequestSchema body =
     (1 \<le> length (title body) \<and> length (title body) \<le> 200
      \<and> 1 \<le> length (keywords' body) \<and> length (keywords' body) \<le> 500
      \<and> articleType body \<in> set articleTypeValues
      \<and> articleSize body \<in> set articleSizeValues
      \<and> tone body \<in> set toneValues
      \<and> pointOfView body \<in> set pointOfViewValues
      \<and> readability body \<in> set readabilityValues
      \<and> aiCleaning body \<in> set aiCleaningValues
      \<and> 1 \<le> length (language body))"

section \<open>Notions used to state the properties\<close>

text \<open>
  A key has no entry in a table when bracket access finds nothing for it: it is no own key
  of the literal and no name inherited from \<^verbatim>\<open>Object.prototype\<close>.
\<close>

definition noEntry :: "(string \<times> 'a) list \<Rightarrow> string \<Rightarrow> bool" where
  "noEntry table v = (v \<notin> set (map fst table) \<and> v \<notin> set objectPrototypeKeys)"

text \<open>
  The text \<^verbatim>\<open>buildArticlePrompt\<close> returns once the two size fields have been read as
  \<open>w\<close> and \<open>h\<close>.
\<close>

definition promptBody :: "PromptData \<Rightarrow> string \<Rightarrow> string \<Rightarrow> string" where
  "promptBody d w h =
     promptHeader (orElse (getProp languageNames (language d)) ''English'') (title d) (keywords' d) w h
     @ articleTypeClause (articleType d)
     @ toneClause (tone d)
     @ povClause (pointOfView d)
     @ readabilityClause (readability d)
     @ cleaningClause (aiCleaning d)
     @ structureRequirements (structure' d)
     @ promptFooter h (orElse (getProp languageNames (language d)) ''English'')"

text \<open>The nine structure flags in their declared order, with the label each contributes.\<close>

datatype flag =
  Conclusion | FaqSection | Tables | H3Headings | Lists | Italics | Bold | Quotes | KeyTakeaways

definition declaredOrder :: "flag list" where
  "declaredOrder =
     [Conclusion, FaqSection, Tables, H3Headings, Lists, Italics, Bold, Quotes, KeyTakeaways]"

fun flagOf :: "Structure \<Rightarrow> flag \<Rightarrow> bool" where
  "flagOf s Conclusion = conclusion s"
| "flagOf s FaqSection = faqSection s"
| "flagOf s Tables = tables s"
| "flagOf s H3Headings = h3Headings s"
| "flagOf s Lists = lists' s"
| "flagOf s Italics = italics s"
| "flagOf s Bold = bold s"
| "flagOf s Quotes = quotes s"
| "flagOf s KeyTakeaways = keyTakeaways s"

fun flagLabel :: "flag \<Rightarrow> string" where
  "flagLabel Conclusion = ''Conclusion section''"
| "flagLabel FaqSection = ''FAQ section''"
| "flagLabel Tables = ''Data tables''"
| "flagLabel H3Headings = ''H3 subheadings within sections''"
| "flagLabel Lists = ''Bulleted or numbered lists''"
| "flagLabel Italics = ''Italic text for emphasis''"
| "flagLabel Bold = ''Bold text for emphasis''"
| "flagLabel Quotes = ''Relevant quotes''"
| "flagLabel KeyTakeaways = ''Key takeaways section''"

definition plainData :: PromptData where
  "plainData =
     \<lparr>articleType = ''None'', articleSize = ''Small'', tone = ''None'', pointOfView = ''None'',
      readability = ''None'', aiCleaning = ''No AI Words Removal'', structure' = noStructure,
      language = ''en'', title = ''Tea'', keywords' = ''tea''\<rparr>"

text \<open>
  The settings of the coffee scenario; it leaves point of view, readability and cleaning
  level open.
\<close>

definition coffeeStructure :: Structure where
  "coffeeStructure = noStructure\<lparr>lists' := True, conclusion := True\<rparr>"

definition coffee :: "string \<Rightarrow> string \<Rightarrow> string \<Rightarrow> PromptData" where
  "coffee pov rd cl =
     \<lparr>articleType = ''Listicle'', articleSize = ''Small'', tone = ''Friendly'', pointOfView = pov,
      readability = rd, aiCleaning = cl, structure' = coffeeStructure, language = ''en'',
      title = ''Best Coffee'', keywords' = ''coffee,brew''\<rparr>"

section \<open>The generate route (api/generate)\<close>

text \<open>
  What one request meets outside the handler: the session lookup and the body parse (each
  may throw), the configured API key, the answer of the completion service for a prompt and
  a token ceiling (a thrown error, or the content of the first choice if there is one), the
  id \<^verbatim>\<open>generateId\<close> hands out, the two clock readings, and the fault, if any, that the
  database raises for the insert.
\<close>

record Env =
  getSession :: "thrown + string option"
  json :: "thrown + PromptData"
  apiKey :: "string option"
  createCompletion :: "string \<Rightarrow> jsvalue \<Rightarrow> thrown + string option"
  generateId :: string
  createdNow :: int
  updatedNow :: int
  dbFault :: "thrown option"

text \<open>The body of the success response: articleId, title, content and settings.\<close>

datatype generated = Generated string string string ArticleSettings

text \<open>The \<^verbatim>\<open>catch\<close> block of the handler.\<close>

definition handleError :: "thrown \<Rightarrow> generated response" where
  "handleError e =
     (case e of
        ZodError \<Rightarrow> Failure 400 ''Invalid request data''
      | Thrown ty code \<Rightarrow>
          if ty = Some ''insufficient_quota''
          then Failure 503 ''AI service temporarily unavailable. Please try again later.''
          else if ty = Some ''invalid_request_error''
          then Failure 400 ''Invalid AI service request. Please try again.''
          else if code = Some ''23505''
          then Failure 409 ''Duplicate article detected.''
          else Failure 500 ''Failed to generate article. Please try again.'')"

definition settingsOf :: "PromptData \<Rightarrow> ArticleSettings" where
  "settingsOf validatedData =
     \<lparr>articleType = articleType validatedData, articleSize = articleSize validatedData,
      tone = tone validatedData, pointOfView = pointOfView validatedData,
      readability = readability validatedData, aiCleaning = aiCleaning validatedData,
      structure' = structure' validatedData, language = language validatedData\<rparr>"

definition articleDataOf :: "Env \<Rightarrow> string \<Rightarrow> PromptData \<Rightarrow> string \<Rightarrow> Article" where
  "articleDataOf env uid validatedData generatedContent =
     \<lparr>id' = generateId env, userId = uid, Article.title = title validatedData,
      content = generatedContent, Article.keywords' = keywords' validatedData,
      settings = settingsOf validatedData, createdAt = createdNow env, updatedAt = updatedNow env\<rparr>"

text \<open>
  \<^verbatim>\<open>POST\<close>, from the table before the request to the response and the table after it.
  (The client constructor is taken to return; the handler tests the key itself.)
\<close>

definition POST :: "Env \<Rightarrow> Article list \<Rightarrow> generated response \<times> Article list" where
  "POST env rows =
     (case getSession env of
        Inl e \<Rightarrow> (handleError e, rows)
      | Inr session \<Rightarrow>
          (case session of
             None \<Rightarrow> (Failure 401 ''Unauthorized. Please sign in to generate articles.'', rows)
           | Some uid \<Rightarrow>
               if uid = []
               then (Failure 401 ''Unauthorized. Please sign in to generate articles.'', rows)
               else
                 (case json env of
                    Inl e \<Rightarrow> (handleError e, rows)
                  | Inr body \<Rightarrow>
                      if \<not> generateRequestSchema body then (handleError ZodError, rows)
                      else if apiKey env = None \<or> apiKey env = Some []
                      then (Failure 500 ''AI service configuration error. Please contact support.'', rows)
                      else
                        (case buildArticlePrompt body of
                           Inl e \<Rightarrow> (handleError (Thrown None None), rows)
                         | Inr prompt \<Rightarrow>
                             (case createCompletion env prompt (getMaxTokens (articleSize body)) of
                                Inl e \<Rightarrow> (handleError e, rows)
                              | Inr generatedContent \<Rightarrow>
                                  (case generatedContent of
                                     None \<Rightarrow>
                                       (Failure 500 ''Failed to generate article content. Please try again.'', rows)
                                   | Some c \<Rightarrow>
                                       if c = []
                                       then (Failure 500 ''Failed to generate article content. Please try again.'', rows)
                                       else
                                         (case insertArticle (dbFault env) rows (articleDataOf env uid body c) of
                                            Inl e \<Rightarrow> (handleError e, rows)
                                          | Inr rows' \<Rightarrow>
                                              (Json (Generated (generateId env) (title body) c (settingsOf body)),
                                               rows'))))))))"

definition isSuccess :: "generated response \<Rightarrow> bool" where
  "isSuccess r = (case r of Json g \<Rightarrow> True | Failure st msg \<Rightarrow> False)"

section \<open>The article history (components/article-history)\<close>

text \<open>
  A title, a keywords string and a search term stand for their text in UTF-8, one
  \<^typ>\<open>char\<close> per byte; on well-formed text, containment of byte strings is containment of
  the texts. \<^verbatim>\<open>characters\<close> cuts a byte string into its characters by the lead bytes,
  \<^verbatim>\<open>codePoint\<close> reads a character and \<^verbatim>\<open>utf8\<close> writes one.
\<close>

definition utf8Length :: "char \<Rightarrow> nat" where
  "utf8Length b =
     (let n = (of_char b :: nat)
      in if n < 0xC0 then 1 else if n < 0xE0 then 2 else if n < 0xF0 then 3 else 4)"

function characters :: "string \<Rightarrow> string list" where
  "characters [] = []"
| "characters (b # bs) =
     (b # take (utf8Length b - 1) bs) # characters (drop (utf8Length b - 1) bs)"
  by pat_completeness auto

termination characters
  by (relation "measure length") auto

definition codePoint :: "string \<Rightarrow> nat" where
  "codePoint c =
     (case map of_char c of
        [a] \<Rightarrow> if a < 0x80 then a else 0xFFFD
      | [a, b] \<Rightarrow> (a - 0xC0) * 64 + (b - 0x80)
      | [a, b, c] \<Rightarrow> (a - 0xE0) * 4096 + (b - 0x80) * 64 + (c - 0x80)
      | [a, b, c, d] \<Rightarrow> (a - 0xF0) * 262144 + (b - 0x80) * 4096 + (c - 0x80) * 64 + (d - 0x80)
      | _ \<Rightarrow> 0xFFFD)"

definition utf8 :: "nat \<Rightarrow> string" where
  "utf8 n =
     (if n < 0x80 then [char_of n]
      else if n < 0x800 then [char_of (0xC0 + n div 64), char_of (0x80 + n mod 64)]
      else if n < 0x10000
      then [char_of (0xE0 + n div 4096), char_of (0x80 + n div 64 mod 64), char_of (0x80 + n mod 64)]
      else [char_of (0xF0 + n div 262144), char_of (0x80 + n div 4096 mod 64),
            char_of (0x80 + n div 64 mod 64), char_of (0x80 + n mod 64)])"

text \<open>
  \<^verbatim>\<open>String.prototype.toLowerCase\<close> follows the Unicode default case conversion with the
  context rule for the capital sigma. The model covers the characters U+0000 to U+00FF and
  the Greek letters U+0391 to U+03A9 and U+03B1 to U+03C9: their lower-case mapping
  (\<^verbatim>\<open>lowerPoint\<close>), which of them are cased and which are case-ignorable. Characters of
  other scripts are outside the model and are copied as they are.

  A capital sigma becomes the final sigma U+03C2 when it is preceded by a cased letter
  (case-ignorable characters may stand in between) and is not followed by a cased letter
  (again with case-ignorable characters in between); otherwise it becomes U+03C3. The
  flag of \<^verbatim>\<open>lowerCharacters\<close> says whether the text read so far ends in a cased letter
  followed by case-ignorable characters only.
\<close>

definition lowerPoint :: "nat \<Rightarrow> nat" where
  "lowerPoint n =
     (if (0x41 \<le> n \<and> n \<le> 0x5A) \<or> (0xC0 \<le> n \<and> n \<le> 0xDE \<and> n \<noteq> 0xD7)
         \<or> (0x391 \<le> n \<and> n \<le> 0x3A9 \<and> n \<noteq> 0x3A2)
      then n + 32 else n)"

definition cased :: "nat \<Rightarrow> bool" where
  "cased n =
     ((0x41 \<le> n \<and> n \<le> 0x5A) \<or> (0x61 \<le> n \<and> n \<le> 0x7A)
      \<or> n = 0xAA \<or> n = 0xB5 \<or> n = 0xBA
      \<or> (0xC0 \<le> n \<and> n \<le> 0xFF \<and> n \<noteq> 0xD7 \<and> n \<noteq> 0xF7)
      \<or> (0x391 \<le> n \<and> n \<le> 0x3A9 \<and> n \<noteq> 0x3A2) \<or> (0x3B1 \<le> n \<and> n \<le> 0x3C9))"

definition caseIgnorable :: "nat \<Rightarrow> bool" where
  "caseIgnorable n =
     (n \<in> set [0x27, 0x2E, 0x3A, 0x5E, 0x60, 0xA8, 0xAD, 0xAF, 0xB4, 0xB7, 0xB8])"

fun beforeCased :: "string list \<Rightarrow> bool" where
  "beforeCased [] = False"
| "beforeCased (c # cs) =
     (if cased (codePoint c) then True
      else if caseIgnorable (codePoint c) then beforeCased cs else False)"

fun lowerCharacters :: "bool \<Rightarrow> string list \<Rightarrow> string list" where
  "lowerCharacters afterCased [] = []"
| "lowerCharacters afterCased (c # cs) =
     (if codePoint c = 0x3A3
      then (if afterCased \<and> \<not> beforeCased cs then utf8 0x3C2 else utf8 0x3C3)
      else if lowerPoint (codePoint c) = codePoint c then c
      else utf8 (lowerPoint (codePoint c)))
     # lowerCharacters
         (if cased (codePoint c) then True
          else if caseIgnorable (codePoint c) then afterCased else False) cs"

definition toLowerCase :: "string \<Rightarrow> string" where
  "toLowerCase s = concat (lowerCharacters False (characters s))"

text \<open>\<^verbatim>\<open>hay.includes(needle)\<close>: the needle occurs at some position of the hay.\<close>

fun startsWith :: "string \<Rightarrow> string \<Rightarrow> bool" where
  "startsWith hay [] = True"
| "startsWith [] (n # ns) = False"
| "startsWith (c # cs) (n # ns) = (c = n \<and> startsWith cs ns)"

fun includes' :: "string \<Rightarrow> string \<Rightarrow> bool" where
  "includes' [] needle = (needle = [])"
| "includes' (c # cs) needle = (startsWith (c # cs) needle \<or> includes' cs needle)"

definition matchesSearch :: "Article \<Rightarrow> string \<Rightarrow> bool" where
  "matchesSearch article searchTerm =
     (includes' (toLowerCase (Article.title article)) (toLowerCase searchTerm)
      \<or> includes' (toLowerCase (Article.keywords' article)) (toLowerCase searchTerm))"

definition matchesType :: "Article \<Rightarrow> string \<Rightarrow> bool" where
  "matchesType article filterType =
     (filterType = ''all'' \<or> articleType (settings article) = filterType)"

definition filterStep :: "Article list \<Rightarrow> string \<Rightarrow> string \<Rightarrow> Article list" where
  "filterStep articles searchTerm filterType =
     filter (\<lambda>article. matchesSearch article searchTerm \<and> matchesType article filterType) articles"

datatype SortField = CreatedAt | Title | ArticleSize

datatype SortOrder = Asc | Desc

text \<open>A number the comparator returns: an integer, or NaN when a size is not in the table.\<close>

datatype number = Num int | NaN

definition sizeOrder :: "(string \<times> int) list" where
  "sizeOrder = [(''X-Small'', 1), (''Small'', 2), (''Medium'', 3), (''Large'', 4)]"

definition minus_number :: "int property \<Rightarrow> int property \<Rightarrow> number" where
  "minus_number x y = (case (x, y) of (Own a, Own b) \<Rightarrow> Num (a - b) | _ \<Rightarrow> NaN)"

definition negate :: "number \<Rightarrow> number" where
  "negate c = (case c of Num n \<Rightarrow> Num (- n) | NaN \<Rightarrow> NaN)"

text \<open>
  The comparator of the \<^verbatim>\<open>sort\<close> call. \<^verbatim>\<open>localeCompare\<close> is the engine's collation and is
  taken as a parameter.
\<close>

definition compareArticles ::
    "(string \<Rightarrow> string \<Rightarrow> int) \<Rightarrow> SortField \<Rightarrow> SortOrder \<Rightarrow> Article \<Rightarrow> Article \<Rightarrow> number" where
  "compareArticles localeCompare sortField sortOrder a b =
     (let comparison =
            (case sortField of
               CreatedAt \<Rightarrow> Num (createdAt a - createdAt b)
             | Title \<Rightarrow> Num (localeCompare (Article.title a) (Article.title b))
             | ArticleSize \<Rightarrow>
                 minus_number (getProp sizeOrder (articleSize (settings a)))
                              (getProp sizeOrder (articleSize (settings b))))
      in if sortOrder = Asc then comparison else negate comparison)"

text \<open>
  \<^verbatim>\<open>Array.prototype.sort\<close> with a comparator. A NaN result counts as 0. The sort is stable;
  for a comparator that orders the elements consistently every stable sort gives the same
  result, which this insertion sort computes. (When a size is not in the table the
  comparator is not consistent and the engine may order the elements differently.)
\<close>

definition sortValue :: "number \<Rightarrow> int" where
  "sortValue c = (case c of Num n \<Rightarrow> n | NaN \<Rightarrow> 0)"

fun insertSorted :: "('a \<Rightarrow> 'a \<Rightarrow> number) \<Rightarrow> 'a \<Rightarrow> 'a list \<Rightarrow> 'a list" where
  "insertSorted cmp x [] = [x]"
| "insertSorted cmp x (y # ys) =
     (if sortValue (cmp x y) \<le> 0 then x # y # ys else y # insertSorted cmp x ys)"

fun sortBy :: "('a \<Rightarrow> 'a \<Rightarrow> number) \<Rightarrow> 'a list \<Rightarrow> 'a list" where
  "sortBy cmp [] = []"
| "sortBy cmp (x # xs) = insertSorted cmp x (sortBy cmp xs)"

definition filteredArticles ::
    "(string \<Rightarrow> string \<Rightarrow> int) \<Rightarrow> Article list \<Rightarrow> string \<Rightarrow> string \<Rightarrow> SortField \<Rightarrow> SortOrder
     \<Rightarrow> Article list" where
  "filteredArticles localeCompare articles searchTerm filterType sortField sortOrder =
     sortBy (compareArticles localeCompare sortField sortOrder)
       (filterStep articles searchTerm filterType)"

section \<open>Notions used to state the history properties\<close>




text \<open>
  The Greek words \<^verbatim>\<open>KOSMOS\<close> (kappa, omicron, sigma, mu, omicron, sigma) and \<^verbatim>\<open>KOS\<close>
  (kappa, omicron, sigma) in capitals, as UTF-8, and an article with the first as its title.
\<close>

definition kosmos :: string where
  "kosmos =
     [CHR 0xCE, CHR 0x9A, CHR 0xCE, CHR 0x9F, CHR 0xCE, CHR 0xA3,
      CHR 0xCE, CHR 0x9C, CHR 0xCE, CHR 0x9F, CHR 0xCE, CHR 0xA3]"

definition kos :: string where
  "kos = [CHR 0xCE, CHR 0x9A, CHR 0xCE, CHR 0x9F, CHR 0xCE, CHR 0xA3]"

definition kosmosArticle :: Article where
  "kosmosArticle = aliceArticle\<lparr>id' := ''a3'', Article.title := kosmos, Article.keywords' := ''world''\<rparr>"

definition guideArticle :: Article where
  "guideArticle = aliceArticle\<lparr>id' := ''a2'', Article.title := ''How-to Guide''\<rparr>"

definition goodEnv :: Env where
  "goodEnv =
     \<lparr>getSession = Inr (Some ''alice''), json = Inr plainData, apiKey = Some ''sk-test'',
      createCompletion = (\<lambda>prompt maxTokens. Inr (Some ''Tea is a drink.'')),
      generateId = ''id-1'', createdNow = 1000, updatedNow = 1001, dbFault = None\<rparr>"

section \<open>Properties\<close>

subsection \<open>The token ceiling\<close>

lemma getMaxTokens_table:
  "getMaxTokens ''X-Small'' = Number 2000" "getMaxTokens ''Small'' = Number 4000"
  "getMaxTokens ''Medium'' = Number 6000" "getMaxTokens ''Large'' = Number 8000"
  by (simp_all add: getMaxTokens_def getProp_def tokenLimits_def)

lemma getMaxTokens_absent:
  assumes "sz \<notin> set articleSizeValues" and "sz \<notin> set objectPrototypeKeys"
  shows "getMaxTokens sz = Number 4000"
  using assms by (simp add: getMaxTokens_def getProp_def tokenLimits_def articleSizeValues_def)

text \<open>
  C7 (as stated) fails at a string named like a member of \<^verbatim>\<open>Object.prototype\<close>:
  \<^verbatim>\<open>constructor\<close> is none of the four sizes and the function does not return 4000 for it.
\<close>

theorem getMaxTokens_constructor:
  "''constructor'' \<notin> set articleSizeValues
   \<and> getMaxTokens ''constructor'' = ProtoMember ''constructor''
   \<and> getMaxTokens ''constructor'' \<noteq> Number 4000"
  by (simp add: getMaxTokens_def getProp_def tokenLimits_def objectPrototypeKeys_def
      articleSizeValues_def)

text \<open>
  C7 (as amended). The size-to-budget function is total, with X-Small 2000, Small 4000,
  Medium 6000 and Large 8000, and it gives 4000 for every other string that is not a name
  inherited from \<^verbatim>\<open>Object.prototype\<close>. (For such a name the lookup finds
  the inherited member, which is truthy, so the fallback is skipped.)
\<close>

theorem getMaxTokens_total:
  "getMaxTokens ''X-Small'' = Number 2000 \<and> getMaxTokens ''Small'' = Number 4000
   \<and> getMaxTokens ''Medium'' = Number 6000 \<and> getMaxTokens ''Large'' = Number 8000
   \<and> (\<forall>sz. sz \<notin> set articleSizeValues \<and> sz \<notin> set objectPrototypeKeys
         \<longrightarrow> getMaxTokens sz = Number 4000)"
  by (simp add: getMaxTokens_table getMaxTokens_absent)

theorem getMaxTokens_total_witness:
  "''Huge'' \<notin> set articleSizeValues \<and> ''Huge'' \<notin> set objectPrototypeKeys
   \<and> getMaxTokens ''Huge'' = Number 4000"
proof -
  have h: "''Huge'' \<notin> set articleSizeValues \<and> ''Huge'' \<notin> set objectPrototypeKeys"
    by (simp add: articleSizeValues_def objectPrototypeKeys_def)
  from getMaxTokens_total have "getMaxTokens ''Huge'' = Number 4000"
    using h by blast
  with h show ?thesis by simp
qed

subsection \<open>Ownership in the single-article routes\<close>

text \<open>
  C1. getById and deleteById return or remove a record only when it exists and its userId
  equals the requesting ownerId, and answer NotFound otherwise. The routes do not compare
  the owner: with the table holding one article of user \<^verbatim>\<open>alice\<close>, the request of user
  \<^verbatim>\<open>bob\<close> for its id is answered with the article, and his delete request removes it.
\<close>

theorem routes_ignore_owner:
  "userId aliceArticle \<noteq> ''bob''
   \<and> getById [aliceArticle] ''a1'' ''bob'' = Json aliceArticle
   \<and> deleteById_owner [aliceArticle] ''a1'' ''bob'' = (Json True, [])"
  by (simp add: getById_def deleteById_owner_def GET_article_def DELETE_article_def signedIn_def
      selectById_def deleteById_def aliceArticle_def)

subsection \<open>Lookup and compilation lemmas\<close>

lemma getProp_absent:
  assumes "noEntry table v"
  shows "getProp table v = Absent"
proof -
  have "map_of table v = None"
    using assms by (simp add: noEntry_def map_of_eq_None_iff)
  then show ?thesis
    using assms by (simp add: getProp_def noEntry_def)
qed

lemma getProp_size:
  "sz \<in> set articleSizeValues \<Longrightarrow> \<exists>r. getProp sizeRequirements sz = Own r"
  by (auto simp: articleSizeValues_def getProp_def sizeRequirements_def)

lemma size_noEntry:
  "noEntry sizeRequirements sz \<longleftrightarrow> sz \<notin> set articleSizeValues \<and> sz \<notin> set objectPrototypeKeys"
  by (simp add: noEntry_def sizeRequirements_def articleSizeValues_def)

lemma build_own:
  "getProp sizeRequirements (articleSize d) = Own r \<Longrightarrow>
   buildArticlePrompt d = Inr (promptBody d (words r) (h2 r))"
  by (simp add: buildArticlePrompt_def fieldText_def Let_def promptBody_def)

lemma build_inherited:
  "getProp sizeRequirements (articleSize d) = Inherited k \<Longrightarrow>
   buildArticlePrompt d = Inr (promptBody d ''undefined'' ''undefined'')"
  by (simp add: buildArticlePrompt_def fieldText_def Let_def promptBody_def)

lemma build_absent:
  "getProp sizeRequirements (articleSize d) = Absent \<Longrightarrow> buildArticlePrompt d = Inl TypeError"
  by (simp add: buildArticlePrompt_def fieldText_def Let_def)

lemma build_isl:
  "isl (buildArticlePrompt d) \<longleftrightarrow> getProp sizeRequirements (articleSize d) = Absent"
  by (cases "getProp sizeRequirements (articleSize d)")
     (simp_all add: build_own build_inherited build_absent)

lemma build_valid:
  assumes "articleSize d \<in> set articleSizeValues"
  shows "\<exists>w h. buildArticlePrompt d = Inr (promptBody d w h)"
  using getProp_size [OF assms] build_own by blast

lemma build_small:
  "articleSize d = ''Small'' \<Longrightarrow> buildArticlePrompt d = Inr (promptBody d ''1200-2400'' ''5-8'')"
  by (simp add: buildArticlePrompt_def fieldText_def Let_def promptBody_def getProp_def
      sizeRequirements_def)

lemma orElse_absent: "noEntry table v \<Longrightarrow> orElse (getProp table v) d = d"
  by (simp add: getProp_absent orElse_def)

subsection \<open>The size precondition of the prompt builder\<close>

text \<open>
  C10 (as stated) fails at a size named like a member of \<^verbatim>\<open>Object.prototype\<close>: the size
  \<^verbatim>\<open>constructor\<close> is none of the four sizes, yet the builder returns a prompt, with the
  word \<^verbatim>\<open>undefined\<close> for both size fields.
\<close>

theorem size_outside_returns_prompt:
  "articleSize (plainData\<lparr>articleSize := ''constructor''\<rparr>) \<notin> set articleSizeValues
   \<and> buildArticlePrompt (plainData\<lparr>articleSize := ''constructor''\<rparr>)
       = Inr (promptBody plainData ''undefined'' ''undefined'')"
proof -
  have "getProp sizeRequirements ''constructor'' = Inherited ''constructor''"
    by (simp add: getProp_def sizeRequirements_def objectPrototypeKeys_def)
  then have "buildArticlePrompt (plainData\<lparr>articleSize := ''constructor''\<rparr>)
      = Inr (promptBody (plainData\<lparr>articleSize := ''constructor''\<rparr>) ''undefined'' ''undefined'')"
    by (intro build_inherited) simp
  then show ?thesis
    by (simp add: promptBody_def articleSizeValues_def)
qed

text \<open>
  C10 (as amended). For every input whose articleSize is neither one of the four sizes nor
  a name inherited from \<^verbatim>\<open>Object.prototype\<close>, the size lookup yields no entry and
  \<^verbatim>\<open>buildArticlePrompt\<close> throws instead of returning a prompt; for every input whose
  articleSize is one of the four sizes the lookup finds the table entry and a prompt is
  returned, so the error branch is unreachable.
\<close>

theorem size_precondition:
  "(articleSize d \<notin> set articleSizeValues \<and> articleSize d \<notin> set objectPrototypeKeys
      \<longrightarrow> getProp sizeRequirements (articleSize d) = Absent
          \<and> buildArticlePrompt d = Inl TypeError)
   \<and> (articleSize d \<in> set articleSizeValues
      \<longrightarrow> (\<exists>r. getProp sizeRequirements (articleSize d) = Own r
               \<and> buildArticlePrompt d = Inr (promptBody d (words r) (h2 r))))"
  using getProp_size [of "articleSize d"] getProp_absent [of sizeRequirements "articleSize d"]
  by (auto simp: size_noEntry build_own build_absent)

theorem size_precondition_witness:
  "''Huge'' \<notin> set articleSizeValues \<and> ''Huge'' \<notin> set objectPrototypeKeys
   \<and> buildArticlePrompt (plainData\<lparr>articleSize := ''Huge''\<rparr>) = Inl TypeError
   \<and> ''Small'' \<in> set articleSizeValues
   \<and> \<not> isl (buildArticlePrompt plainData)"
  using size_precondition [of "plainData\<lparr>articleSize := ''Huge''\<rparr>"] size_precondition [of plainData]
  by (auto simp: articleSizeValues_def objectPrototypeKeys_def plainData_def)

subsection \<open>Unknown enumerated values\<close>

text \<open>
  C2 (as stated) fails for every enumerated field but articleSize: a tone outside the
  allowed set does not make compilation fail. With the tone \<^verbatim>\<open>Sarcastic\<close> the builder
  returns a prompt.
\<close>

theorem unknown_tone_compiles:
  "tone (plainData\<lparr>tone := ''Sarcastic''\<rparr>) \<notin> set toneValues
   \<and> buildArticlePrompt (plainData\<lparr>tone := ''Sarcastic''\<rparr>)
       = Inr (promptBody (plainData\<lparr>tone := ''Sarcastic''\<rparr>) ''1200-2400'' ''5-8'')"
proof -
  have "articleSize (plainData\<lparr>tone := ''Sarcastic''\<rparr>) = ''Small''"
    by (simp add: plainData_def)
  then show ?thesis
    by (simp add: build_small toneValues_def)
qed

text \<open>
  C2 (as amended). Compilation fails only because of articleSize. It returns a prompt
  whenever articleSize is one of the four sizes, and it raises an error when articleSize is
  neither one of them nor a name inherited from \<^verbatim>\<open>Object.prototype\<close>; whether it fails
  does not depend on articleType, tone, pointOfView, readability, aiCleaning or language,
  whatever values they hold. A language code with no entry in the language table compiles
  to the same prompt as \<^verbatim>\<open>en\<close>, that is with the display name English.
\<close>

theorem compile_fails_only_on_size:
  "(articleSize d \<in> set articleSizeValues \<longrightarrow> \<not> isl (buildArticlePrompt d))
   \<and> (articleSize d \<notin> set articleSizeValues \<and> articleSize d \<notin> set objectPrototypeKeys
        \<longrightarrow> buildArticlePrompt d = Inl TypeError)
   \<and> isl (buildArticlePrompt (d\<lparr>articleType := a, tone := t, pointOfView := p, readability := r,
                                aiCleaning := c, language := l\<rparr>))
       = isl (buildArticlePrompt d)
   \<and> (noEntry languageNames (language d)
        \<longrightarrow> buildArticlePrompt d = buildArticlePrompt (d\<lparr>language := ''en''\<rparr>))"
proof (intro conjI impI)
  assume "articleSize d \<in> set articleSizeValues"
  then show "\<not> isl (buildArticlePrompt d)"
    using build_valid [of d] by auto
next
  assume "articleSize d \<notin> set articleSizeValues \<and> articleSize d \<notin> set objectPrototypeKeys"
  then have "noEntry sizeRequirements (articleSize d)"
    by (simp add: size_noEntry)
  then show "buildArticlePrompt d = Inl TypeError"
    by (simp add: build_absent getProp_absent)
next
  show "isl (buildArticlePrompt (d\<lparr>articleType := a, tone := t, pointOfView := p, readability := r,
                                  aiCleaning := c, language := l\<rparr>))
        = isl (buildArticlePrompt d)"
    by (simp add: build_isl)
next
  assume "noEntry languageNames (language d)"
  then have "orElse (getProp languageNames (language d)) ''English'' = ''English''"
    by (rule orElse_absent)
  moreover have "orElse (getProp languageNames ''en'') ''English'' = ''English''"
    by (simp add: getProp_def languageNames_def orElse_def)
  ultimately have b: "promptBody (d\<lparr>language := ''en''\<rparr>) w h = promptBody d w h" for w h
    by (simp add: promptBody_def)
  show "buildArticlePrompt d = buildArticlePrompt (d\<lparr>language := ''en''\<rparr>)"
  proof (cases "getProp sizeRequirements (articleSize d)")
    case (Own r)
    then show ?thesis
      using build_own [of d r] build_own [of "d\<lparr>language := ''en''\<rparr>" r] by (simp add: b)
  next
    case (Inherited k)
    then show ?thesis
      using build_inherited [of d k] build_inherited [of "d\<lparr>language := ''en''\<rparr>" k]
      by (simp add: b)
  next
    case Absent
    then show ?thesis
      using build_absent [of d] build_absent [of "d\<lparr>language := ''en''\<rparr>"] by simp
  qed
qed

theorem compile_fails_only_on_size_witness:
  "''Small'' \<in> set articleSizeValues
   \<and> \<not> isl (buildArticlePrompt (plainData\<lparr>tone := ''Sarcastic''\<rparr>))
   \<and> ''Huge'' \<notin> set articleSizeValues \<and> ''Huge'' \<notin> set objectPrototypeKeys
   \<and> buildArticlePrompt (plainData\<lparr>articleSize := ''Huge''\<rparr>) = Inl TypeError
   \<and> noEntry languageNames ''xx''
   \<and> buildArticlePrompt (plainData\<lparr>language := ''xx''\<rparr>) = buildArticlePrompt plainData"
proof -
  have l: "noEntry languageNames ''xx''"
    by (simp add: noEntry_def languageNames_def objectPrototypeKeys_def)
  have e: "plainData\<lparr>language := ''xx'', language := ''en''\<rparr> = plainData"
    by (simp add: plainData_def)
  show ?thesis
    using compile_fails_only_on_size [of "plainData\<lparr>tone := ''Sarcastic''\<rparr>"]
      compile_fails_only_on_size [of "plainData\<lparr>articleSize := ''Huge''\<rparr>"]
      compile_fails_only_on_size [of "plainData\<lparr>language := ''xx''\<rparr>"] l
    by (simp add: e) (simp add: articleSizeValues_def objectPrototypeKeys_def plainData_def)
qed

subsection \<open>Clause fallbacks\<close>

lemma clause_neutral:
  "toneClause ''None'' = []" "povClause ''None'' = []" "readabilityClause ''None'' = []"
  "cleaningClause ''No AI Words Removal'' = []"
  by (simp_all add: toneClause_def povClause_def readabilityClause_def cleaningClause_def)

text \<open>
  C6 (as stated) fails at a value named like a member of \<^verbatim>\<open>Object.prototype\<close>: the tone
  \<^verbatim>\<open>constructor\<close> is not neutral and is no key of the tone table, yet the clause printed is
  the text of the inherited member, not the raw value.
\<close>

theorem tone_constructor_not_raw:
  "''constructor'' \<noteq> ''None'' \<and> ''constructor'' \<notin> set (map fst toneInstructions)
   \<and> buildArticlePrompt (plainData\<lparr>tone := ''constructor''\<rparr>)
       = Inr (promptBody (plainData\<lparr>tone := ''constructor''\<rparr>) ''1200-2400'' ''5-8'')
   \<and> toneClause (tone (plainData\<lparr>tone := ''constructor''\<rparr>))
       = ''\<newline>- Tone: function Object() { [native code] }''
   \<and> toneClause (tone (plainData\<lparr>tone := ''constructor''\<rparr>)) \<noteq> ''\<newline>- Tone: constructor''"
proof -
  have "articleSize (plainData\<lparr>tone := ''constructor''\<rparr>) = ''Small''"
    by (simp add: plainData_def)
  then have "buildArticlePrompt (plainData\<lparr>tone := ''constructor''\<rparr>)
       = Inr (promptBody (plainData\<lparr>tone := ''constructor''\<rparr>) ''1200-2400'' ''5-8'')"
    by (rule build_small)
  moreover have "toneClause ''constructor'' = ''\<newline>- Tone: function Object() { [native code] }''"
    by (simp add: toneClause_def getProp_def toneInstructions_def objectPrototypeKeys_def
        orElse_def memberText_def)
  ultimately show ?thesis
    by (simp add: toneInstructions_def)
qed

text \<open>
  C6 (as amended). With a valid articleSize compilation returns the prompt made of the
  header, the five clauses, the structure step and the footer, and raises no error whatever
  the four values are. In it, a non-neutral value of tone, pointOfView, readability or
  aiCleaning that has no entry in its table (own or inherited from \<^verbatim>\<open>Object.prototype\<close>)
  is printed raw as the clause text, and the neutral value of each axis gives no clause.
\<close>

theorem clause_fallback:
  "(articleSize d \<in> set articleSizeValues
      \<longrightarrow> (\<exists>w h. buildArticlePrompt d = Inr (promptBody d w h)))
   \<and> (tone d \<noteq> ''None'' \<and> noEntry toneInstructions (tone d)
      \<longrightarrow> toneClause (tone d) = ''\<newline>- Tone: '' @ tone d)
   \<and> (pointOfView d \<noteq> ''None'' \<and> noEntry povInstructions (pointOfView d)
      \<longrightarrow> povClause (pointOfView d) = ''\<newline>- Point of View: '' @ pointOfView d)
   \<and> (readability d \<noteq> ''None'' \<and> noEntry readabilityInstructions (readability d)
      \<longrightarrow> readabilityClause (readability d) = ''\<newline>- Readability Level: '' @ readability d)
   \<and> (aiCleaning d \<noteq> ''No AI Words Removal'' \<and> noEntry cleaningInstructions (aiCleaning d)
      \<longrightarrow> cleaningClause (aiCleaning d) = ''\<newline>- Content Style: '' @ aiCleaning d)
   \<and> (tone d = ''None'' \<longrightarrow> toneClause (tone d) = [])
   \<and> (pointOfView d = ''None'' \<longrightarrow> povClause (pointOfView d) = [])
   \<and> (readability d = ''None'' \<longrightarrow> readabilityClause (readability d) = [])
   \<and> (aiCleaning d = ''No AI Words Removal'' \<longrightarrow> cleaningClause (aiCleaning d) = [])"
  using build_valid [of d]
  by (simp add: clause_neutral)
     (simp add: toneClause_def povClause_def readabilityClause_def cleaningClause_def orElse_absent)

theorem clause_fallback_witness:
  "''Small'' \<in> set articleSizeValues
   \<and> noEntry toneInstructions ''Sarcastic'' \<and> noEntry povInstructions ''Fourth person''
   \<and> noEntry readabilityInstructions ''PhD'' \<and> noEntry cleaningInstructions ''Full''
   \<and> buildArticlePrompt
        (plainData\<lparr>tone := ''Sarcastic'', pointOfView := ''Fourth person'', readability := ''PhD'',
                    aiCleaning := ''Full''\<rparr>)
      = Inr (promptHeader ''English'' ''Tea'' ''tea'' ''1200-2400'' ''5-8''
             @ ''\<newline>- Tone: Sarcastic'' @ ''\<newline>- Point of View: Fourth person''
             @ ''\<newline>- Readability Level: PhD'' @ ''\<newline>- Content Style: Full''
             @ ''\<newline>\<newline>STRUCTURE REQUIREMENTS:'' @ promptFooter ''5-8'' ''English'')
   \<and> buildArticlePrompt plainData
      = Inr (promptHeader ''English'' ''Tea'' ''tea'' ''1200-2400'' ''5-8''
             @ ''\<newline>\<newline>STRUCTURE REQUIREMENTS:'' @ promptFooter ''5-8'' ''English'')"
proof -
  let ?d = "plainData\<lparr>tone := ''Sarcastic'', pointOfView := ''Fourth person'',
                       readability := ''PhD'', aiCleaning := ''Full''\<rparr>"
  have n: "noEntry toneInstructions ''Sarcastic''" "noEntry povInstructions ''Fourth person''"
    "noEntry readabilityInstructions ''PhD''" "noEntry cleaningInstructions ''Full''"
    by (simp_all add: noEntry_def toneInstructions_def povInstructions_def
        readabilityInstructions_def cleaningInstructions_def objectPrototypeKeys_def)
  have s: "''Small'' \<in> set articleSizeValues"
    by (simp add: articleSizeValues_def)
  have f: "tone ?d = ''Sarcastic''" "pointOfView ?d = ''Fourth person''" "readability ?d = ''PhD''"
    "aiCleaning ?d = ''Full''" "articleSize ?d = ''Small''" "articleType ?d = ''None''"
    "language ?d = ''en''" "title ?d = ''Tea''" "keywords' ?d = ''tea''" "structure' ?d = noStructure"
    by (simp_all add: plainData_def)
  have g: "tone plainData = ''None''" "pointOfView plainData = ''None''"
    "readability plainData = ''None''" "aiCleaning plainData = ''No AI Words Removal''"
    "articleSize plainData = ''Small''" "articleType plainData = ''None''"
    "language plainData = ''en''" "title plainData = ''Tea''" "keywords' plainData = ''tea''"
    "structure' plainData = noStructure"
    by (simp_all add: plainData_def)
  have e: "orElse (getProp languageNames ''en'') ''English'' = ''English''"
    by (simp add: getProp_def languageNames_def orElse_def)
  have st: "structureRequirements noStructure = ''\<newline>\<newline>STRUCTURE REQUIREMENTS:''"
    by (simp add: structureRequirements_def structureItems_def push_if_def noStructure_def)
  have c1: "toneClause (tone ?d) = ''\<newline>- Tone: '' @ tone ?d"
    "povClause (pointOfView ?d) = ''\<newline>- Point of View: '' @ pointOfView ?d"
    "readabilityClause (readability ?d) = ''\<newline>- Readability Level: '' @ readability ?d"
    "cleaningClause (aiCleaning ?d) = ''\<newline>- Content Style: '' @ aiCleaning ?d"
    using clause_fallback [of ?d] n unfolding f by simp_all
  have c2: "toneClause (tone plainData) = []" "povClause (pointOfView plainData) = []"
    "readabilityClause (readability plainData) = []" "cleaningClause (aiCleaning plainData) = []"
    using clause_fallback [of plainData] unfolding g by simp_all
  have b1: "buildArticlePrompt ?d = Inr (promptBody ?d ''1200-2400'' ''5-8'')"
    by (rule build_small) (rule f)
  have b2: "buildArticlePrompt plainData = Inr (promptBody plainData ''1200-2400'' ''5-8'')"
    by (rule build_small) (rule g)
  have p1: "promptBody ?d ''1200-2400'' ''5-8''
      = promptHeader ''English'' ''Tea'' ''tea'' ''1200-2400'' ''5-8''
        @ ''\<newline>- Tone: Sarcastic'' @ ''\<newline>- Point of View: Fourth person''
        @ ''\<newline>- Readability Level: PhD'' @ ''\<newline>- Content Style: Full''
        @ ''\<newline>\<newline>STRUCTURE REQUIREMENTS:'' @ promptFooter ''5-8'' ''English''"
    unfolding promptBody_def c1 unfolding f e st by (simp add: articleTypeClause_def)
  have p2: "promptBody plainData ''1200-2400'' ''5-8''
      = promptHeader ''English'' ''Tea'' ''tea'' ''1200-2400'' ''5-8''
        @ ''\<newline>\<newline>STRUCTURE REQUIREMENTS:'' @ promptFooter ''5-8'' ''English''"
    unfolding promptBody_def c2 unfolding g e st by (simp add: articleTypeClause_def)
  show ?thesis
    using n s b1 b2 unfolding p1 p2 by simp
qed

subsection \<open>The structure step\<close>

lemma push_if_snoc:
  "push_if (P y) (f y) (map f (filter P ys)) = map f (filter P (ys @ [y]))"
  by (simp add: push_if_def)

lemma structureItems_declaredOrder:
  "structureItems s = map flagLabel (filter (flagOf s) declaredOrder)"
proof -
  have "map flagLabel (filter (flagOf s) declaredOrder)
      = map flagLabel (filter (flagOf s)
          (((((((((([] @ [Conclusion]) @ [FaqSection]) @ [Tables]) @ [H3Headings]) @ [Lists])
              @ [Italics]) @ [Bold]) @ [Quotes]) @ [KeyTakeaways])))"
    by (simp add: declaredOrder_def)
  also have "\<dots> = structureItems s"
    unfolding push_if_snoc [symmetric] structureItems_def by simp
  finally show ?thesis by simp
qed

lemma flag_exhaust: "f \<in> set declaredOrder"
  by (cases f) (simp_all add: declaredOrder_def)

lemma structureItems_empty: "structureItems s = [] \<longleftrightarrow> (\<forall>f. \<not> flagOf s f)"
  by (auto simp: structureItems_declaredOrder filter_empty_conv flag_exhaust)

text \<open>
  C5 (as stated) fails for the case of no flag: with all nine flags false the structure
  step still appends its heading, so something is appended; only the Include line is left
  out.
\<close>

theorem structure_step_no_flags:
  "structureItems noStructure = []
   \<and> structureRequirements noStructure = ''\<newline>\<newline>STRUCTURE REQUIREMENTS:''
   \<and> structureRequirements noStructure \<noteq> []"
  by (simp add: structureRequirements_def structureItems_def push_if_def noStructure_def)

text \<open>
  C5 (as amended). For every combination of the nine flags the items of the Include line
  are exactly the labels of the true flags, one label per flag, in the declared order
  (conclusion, faqSection, tables, h3Headings, lists, italics, bold, quotes, keyTakeaways).
  The structure step appends the heading \<^verbatim>\<open>STRUCTURE REQUIREMENTS:\<close> and then, when some
  flag is true, the single line \<^verbatim>\<open>- Include:\<close> with these labels joined by a comma and a
  space; when all nine flags are false the Include line is omitted and only the heading is
  appended. Every prompt the builder returns contains this text.
\<close>

theorem structure_step:
  "structureItems s = map flagLabel (filter (flagOf s) declaredOrder)
   \<and> distinct (map flagLabel declaredOrder) \<and> set declaredOrder = UNIV
   \<and> structureRequirements s
       = ''\<newline>\<newline>STRUCTURE REQUIREMENTS:''
         @ (if \<exists>f. flagOf s f
            then ''\<newline>- Include: '' @ join '', '' (map flagLabel (filter (flagOf s) declaredOrder))
            else [])
   \<and> (buildArticlePrompt d = Inr p \<and> structure' d = s
        \<longrightarrow> sublist (structureRequirements s) p)"
proof (intro conjI impI)
  show "structureItems s = map flagLabel (filter (flagOf s) declaredOrder)"
    by (rule structureItems_declaredOrder)
  show "distinct (map flagLabel declaredOrder)"
    by (simp add: declaredOrder_def)
  show "set declaredOrder = UNIV"
    using flag_exhaust by blast
  show "structureRequirements s
       = ''\<newline>\<newline>STRUCTURE REQUIREMENTS:''
         @ (if \<exists>f. flagOf s f
            then ''\<newline>- Include: '' @ join '', '' (map flagLabel (filter (flagOf s) declaredOrder))
            else [])"
    using structureItems_empty [of s]
    by (simp add: structureRequirements_def structureItems_declaredOrder [symmetric])
  assume a: "buildArticlePrompt d = Inr p \<and> structure' d = s"
  then have "\<not> isl (buildArticlePrompt d)"
    by simp
  then obtain w h where "buildArticlePrompt d = Inr (promptBody d w h)"
    by (cases "getProp sizeRequirements (articleSize d)")
       (auto simp: build_own build_inherited build_absent)
  with a have "p = promptBody d w h" by simp
  then have "p = (promptHeader (orElse (getProp languageNames (language d)) ''English'')
                    (title d) (keywords' d) w h
                  @ articleTypeClause (articleType d) @ toneClause (tone d)
                  @ povClause (pointOfView d) @ readabilityClause (readability d)
                  @ cleaningClause (aiCleaning d))
                 @ structureRequirements s
                 @ promptFooter h (orElse (getProp languageNames (language d)) ''English'')"
    using a by (simp add: promptBody_def)
  then show "sublist (structureRequirements s) p"
    by (simp only: sublist_appendI)
qed

theorem structure_step_witness:
  "buildArticlePrompt (coffee ''None'' ''None'' ''No AI Words Removal'')
     = Inr (promptBody (coffee ''None'' ''None'' ''No AI Words Removal'') ''1200-2400'' ''5-8'')
   \<and> structureItems coffeeStructure = [''Conclusion section'', ''Bulleted or numbered lists'']
   \<and> sublist (''\<newline>\<newline>STRUCTURE REQUIREMENTS:''
               @ ''\<newline>- Include: Conclusion section, Bulleted or numbered lists'')
        (promptBody (coffee ''None'' ''None'' ''No AI Words Removal'') ''1200-2400'' ''5-8'')"
proof -
  let ?c = "coffee ''None'' ''None'' ''No AI Words Removal''"
  have b: "buildArticlePrompt ?c = Inr (promptBody ?c ''1200-2400'' ''5-8'')"
    by (rule build_small) (simp add: coffee_def)
  have s: "structure' ?c = coffeeStructure"
    by (simp add: coffee_def)
  have i: "structureItems coffeeStructure = [''Conclusion section'', ''Bulleted or numbered lists'']"
    by (simp add: structureItems_def push_if_def coffeeStructure_def noStructure_def)
  have r: "structureRequirements coffeeStructure
      = ''\<newline>\<newline>STRUCTURE REQUIREMENTS:''
        @ ''\<newline>- Include: Conclusion section, Bulleted or numbered lists''"
    by (simp add: structureRequirements_def i)
  have "sublist (structureRequirements coffeeStructure) (promptBody ?c ''1200-2400'' ''5-8'')"
    using structure_step [of coffeeStructure ?c "promptBody ?c ''1200-2400'' ''5-8''"] b s
    by blast
  then show ?thesis
    using b i unfolding r by blast
qed

subsection \<open>The coffee scenario\<close>

lemma sublist_filter: "sublist xs ys \<Longrightarrow> sublist (filter P xs) (filter P ys)"
  by (metis filter_append sublist_def)

lemma sublist_left: "sublist x a \<Longrightarrow> sublist x (a @ b)"
  by (metis append.assoc sublist_def)

lemma header_words: "sublist w (promptHeader l t k w h)"
proof -
  have "promptHeader l t k w h
      = (''You are an expert SEO content writer. Write a comprehensive, SEO-optimized article in ''
         @ l @ '' based on the following specifications:\<newline>\<newline>''
         @ ''TITLE: '' @ t @ ''\<newline>'' @ ''KEYWORDS: '' @ k @ ''\<newline>\<newline>''
         @ ''ARTICLE REQUIREMENTS:\<newline>'' @ ''- Target Language: '' @ l @ ''\<newline>''
         @ ''- Word Count: '')
        @ w @ ('' words\<newline>'' @ ''- H2 Headings: '' @ h @ '' sections\<newline>''
               @ ''- Main Keywords: '' @ k)"
    by (simp add: promptHeader_def)
  then show ?thesis
    by (simp only: sublist_appendI)
qed

lemma coffee_structure:
  "structureRequirements coffeeStructure
     = ''\<newline>\<newline>STRUCTURE REQUIREMENTS:''
       @ ''\<newline>- Include: Conclusion section, Bulleted or numbered lists''"
  by (simp add: structureRequirements_def structureItems_def push_if_def coffeeStructure_def
      noStructure_def)

lemma footer_newline: "\<exists>rest. promptFooter h l = ''\<newline>'' @ rest"
  by (simp add: promptFooter_def)

lemma coffee_body:
  "promptBody (coffee pov rd cl) ''1200-2400'' ''5-8''
     = promptHeader ''English'' ''Best Coffee'' ''coffee,brew'' ''1200-2400'' ''5-8''
       @ ''\<newline>- Article Type: Listicle''
       @ ''\<newline>- Tone: Use a warm, approachable, and conversational tone''
       @ povClause pov @ readabilityClause rd @ cleaningClause cl
       @ structureRequirements coffeeStructure
       @ promptFooter ''5-8'' ''English''"
  by (simp add: promptBody_def coffee_def getProp_def languageNames_def orElse_def
      articleTypeClause_def toneClause_def toneInstructions_def)

text \<open>
  C4 (as stated) fails on the Include line: the labels the builder prints are
  \<^verbatim>\<open>Conclusion section\<close> and \<^verbatim>\<open>Bulleted or numbered lists\<close>, conclusion first, so the text
  \<^verbatim>\<open>Include: Lists, Conclusion\<close> does not occur in the compiled prompt (here with the three
  open fields at their neutral values).
\<close>

theorem coffee_no_lists_conclusion:
  "buildArticlePrompt (coffee ''None'' ''None'' ''No AI Words Removal'')
     = Inr (promptBody (coffee ''None'' ''None'' ''No AI Words Removal'') ''1200-2400'' ''5-8'')
   \<and> \<not> sublist ''Include: Lists, Conclusion''
         (promptBody (coffee ''None'' ''None'' ''No AI Words Removal'') ''1200-2400'' ''5-8'')"
proof -
  let ?c = "coffee ''None'' ''None'' ''No AI Words Removal''"
  let ?P = "\<lambda>c. c = CHR '','' \<or> c = CHR ''C'' \<or> c = CHR ''L''"
  have b: "buildArticlePrompt ?c = Inr (promptBody ?c ''1200-2400'' ''5-8'')"
    by (rule build_small) (simp add: coffee_def)
  have h: "filter ?P (promptHeader ''English'' ''Best Coffee'' ''coffee,brew'' ''1200-2400'' ''5-8'')
      = '',LC,CLLC,''"
    unfolding promptHeader_def filter_append by simp
  have f: "filter ?P (promptFooter ''5-8'' ''English'') = ''CLC,,,,LLL,,,''"
    unfolding promptFooter_def filter_append by simp
  have "filter ?P (promptBody ?c ''1200-2400'' ''5-8'') = '',LC,CLLC,L,,CC,CLC,,,,LLL,,,''"
    unfolding coffee_body coffee_structure filter_append h f
    by (simp add: clause_neutral)
  moreover have "\<not> sublist (filter ?P ''Include: Lists, Conclusion'') '',LC,CLLC,L,,CC,CLC,,,,LLL,,,''"
    by (simp add: sublist_Cons_right)
  ultimately have "\<not> sublist ''Include: Lists, Conclusion'' (promptBody ?c ''1200-2400'' ''5-8'')"
    using sublist_filter [of "''Include: Lists, Conclusion''" "promptBody ?c ''1200-2400'' ''5-8''" ?P]
    by auto
  with b show ?thesis by simp
qed

text \<open>
  C4 (as amended). For the settings title Best Coffee, keywords coffee,brew, articleType
  Listicle, articleSize Small, tone Friendly, only the lists and conclusion flags true,
  language en, and any point of view, readability and cleaning level: the compiled text
  contains the word-count range 1200-2400, the Friendly tone clause, and the line
  \<^verbatim>\<open>- Include: Conclusion section, Bulleted or numbered lists\<close> (the labels of the two flags
  in the declared flag order), and the token budget is 4000.
\<close>

theorem coffee_prompt_contents:
  "\<exists>p. buildArticlePrompt (coffee pov rd cl) = Inr p
       \<and> sublist ''1200-2400'' p
       \<and> sublist ''\<newline>- Tone: Use a warm, approachable, and conversational tone'' p
       \<and> sublist ''\<newline>- Include: Conclusion section, Bulleted or numbered lists\<newline>'' p
       \<and> getMaxTokens (articleSize (coffee pov rd cl)) = Number 4000"
proof -
  let ?H = "promptHeader ''English'' ''Best Coffee'' ''coffee,brew'' ''1200-2400'' ''5-8''"
  let ?p = "promptBody (coffee pov rd cl) ''1200-2400'' ''5-8''"
  obtain rest where rest: "promptFooter ''5-8'' ''English'' = ''\<newline>'' @ rest"
    using footer_newline by blast
  have b: "buildArticlePrompt (coffee pov rd cl) = Inr ?p"
    by (rule build_small) (simp add: coffee_def)
  have "sublist ''1200-2400'' ?H"
    by (rule header_words)
  then have w: "sublist ''1200-2400'' ?p"
    unfolding coffee_body by (rule sublist_left)
  have "?p = (?H @ ''\<newline>- Article Type: Listicle'')
             @ ''\<newline>- Tone: Use a warm, approachable, and conversational tone''
             @ (povClause pov @ readabilityClause rd @ cleaningClause cl
                @ structureRequirements coffeeStructure @ promptFooter ''5-8'' ''English'')"
    by (simp add: coffee_body)
  then have t: "sublist ''\<newline>- Tone: Use a warm, approachable, and conversational tone'' ?p"
    by (simp only: sublist_appendI)
  have "?p = (?H @ ''\<newline>- Article Type: Listicle''
              @ ''\<newline>- Tone: Use a warm, approachable, and conversational tone''
              @ povClause pov @ readabilityClause rd @ cleaningClause cl
              @ ''\<newline>\<newline>STRUCTURE REQUIREMENTS:'')
             @ ''\<newline>- Include: Conclusion section, Bulleted or numbered lists\<newline>''
             @ rest"
    by (simp add: coffee_body coffee_structure rest)
  then have i: "sublist ''\<newline>- Include: Conclusion section, Bulleted or numbered lists\<newline>'' ?p"
    by (simp only: sublist_appendI)
  have "getMaxTokens (articleSize (coffee pov rd cl)) = Number 4000"
    by (simp add: coffee_def getMaxTokens_table)
  with b w t i show ?thesis by blast
qed

subsection \<open>Generation and persistence\<close>

lemma handleError_fails: "\<not> isSuccess (handleError e)"
  by (cases e) (simp_all add: handleError_def isSuccess_def)

lemma insertArticle_result:
  "insertArticle fault rows a = Inr rows' \<Longrightarrow>
   fault = None \<and> id' a \<notin> set (map id' rows) \<and> rows' = rows @ [a]"
  by (auto simp: insertArticle_def split: option.splits if_splits)

lemma POST_success:
  assumes "POST env rows = (resp, rows')" and "isSuccess resp"
  shows "\<exists>uid body prompt c.
           getSession env = Inr (Some uid) \<and> json env = Inr body
           \<and> buildArticlePrompt body = Inr prompt
           \<and> createCompletion env prompt (getMaxTokens (articleSize body)) = Inr (Some c)
           \<and> c \<noteq> []
           \<and> insertArticle (dbFault env) rows (articleDataOf env uid body c) = Inr rows'
           \<and> resp = Json (Generated (generateId env) (title body) c (settingsOf body))"
  using assms handleError_fails
  by (auto simp: POST_def isSuccess_def split: sum.splits option.splits if_splits)

lemma POST_failure:
  assumes "POST env rows = (resp, rows')" and "\<not> isSuccess resp"
  shows "rows' = rows"
  using assms
  by (auto simp: POST_def isSuccess_def split: sum.splits option.splits if_splits)

text \<open>
  C3. For every run of the generate operation: a success response is produced only when
  the generation stage returned non-empty content and the insert of the article completed;
  a row is added to the table only in such a run, and the row added carries that content,
  so no article is persisted without content; and when the insert fails (the database
  raises a fault, or the id is already taken) the response is not a success and the table
  is unchanged.
\<close>

theorem generate_success_needs_both:
  assumes "POST env rows = (resp, rows')"
  shows "(isSuccess resp \<longrightarrow>
            (\<exists>uid body prompt c.
               getSession env = Inr (Some uid) \<and> json env = Inr body
               \<and> buildArticlePrompt body = Inr prompt
               \<and> createCompletion env prompt (getMaxTokens (articleSize body)) = Inr (Some c)
               \<and> c \<noteq> []
               \<and> insertArticle (dbFault env) rows (articleDataOf env uid body c) = Inr rows'
               \<and> rows' = rows @ [articleDataOf env uid body c]
               \<and> resp = Json (Generated (generateId env) (title body) c (settingsOf body))))
         \<and> (rows' \<noteq> rows \<longrightarrow> isSuccess resp \<and> (\<exists>a. rows' = rows @ [a] \<and> content a \<noteq> []))
         \<and> (dbFault env \<noteq> None \<or> generateId env \<in> set (map id' rows)
              \<longrightarrow> \<not> isSuccess resp \<and> rows' = rows)"
proof (intro conjI impI)
  assume s: "isSuccess resp"
  from POST_success [OF assms s] obtain uid body prompt c where
    f: "getSession env = Inr (Some uid)" "json env = Inr body"
       "buildArticlePrompt body = Inr prompt"
       "createCompletion env prompt (getMaxTokens (articleSize body)) = Inr (Some c)"
       "c \<noteq> []"
       "insertArticle (dbFault env) rows (articleDataOf env uid body c) = Inr rows'"
       "resp = Json (Generated (generateId env) (title body) c (settingsOf body))"
    by blast
  from insertArticle_result [OF f(6)] have "rows' = rows @ [articleDataOf env uid body c]"
    by simp
  with f show "\<exists>uid body prompt c.
               getSession env = Inr (Some uid) \<and> json env = Inr body
               \<and> buildArticlePrompt body = Inr prompt
               \<and> createCompletion env prompt (getMaxTokens (articleSize body)) = Inr (Some c)
               \<and> c \<noteq> []
               \<and> insertArticle (dbFault env) rows (articleDataOf env uid body c) = Inr rows'
               \<and> rows' = rows @ [articleDataOf env uid body c]
               \<and> resp = Json (Generated (generateId env) (title body) c (settingsOf body))"
    by blast
next
  assume n: "rows' \<noteq> rows"
  then show "isSuccess resp"
    using POST_failure [OF assms] by blast
next
  assume n: "rows' \<noteq> rows"
  then have s: "isSuccess resp"
    using POST_failure [OF assms] by blast
  from POST_success [OF assms s] obtain uid body c where
    f: "c \<noteq> []" "insertArticle (dbFault env) rows (articleDataOf env uid body c) = Inr rows'"
    by blast
  from insertArticle_result [OF f(2)] have "rows' = rows @ [articleDataOf env uid body c]"
    by simp
  moreover have "content (articleDataOf env uid body c) \<noteq> []"
    using f(1) by (simp add: articleDataOf_def)
  ultimately show "\<exists>a. rows' = rows @ [a] \<and> content a \<noteq> []"
    by blast
next
  assume p: "dbFault env \<noteq> None \<or> generateId env \<in> set (map id' rows)"
  show "\<not> isSuccess resp"
  proof
    assume s: "isSuccess resp"
    from POST_success [OF assms s] obtain uid body c where
      f: "insertArticle (dbFault env) rows (articleDataOf env uid body c) = Inr rows'"
      by blast
    from insertArticle_result [OF f] have "dbFault env = None"
      and "id' (articleDataOf env uid body c) \<notin> set (map id' rows)"
      by simp_all
    with p show False
      by (simp add: articleDataOf_def)
  qed
  then show "rows' = rows"
    using POST_failure [OF assms] by blast
qed

theorem generate_success_needs_both_witness:
  "POST goodEnv [] =
     (Json (Generated ''id-1'' ''Tea'' ''Tea is a drink.'' (settingsOf plainData)),
      [articleDataOf goodEnv ''alice'' plainData ''Tea is a drink.''])
   \<and> isSuccess (Json (Generated ''id-1'' ''Tea'' ''Tea is a drink.'' (settingsOf plainData)))
   \<and> [articleDataOf goodEnv ''alice'' plainData ''Tea is a drink.''] \<noteq> []
   \<and> content (articleDataOf goodEnv ''alice'' plainData ''Tea is a drink.'') \<noteq> []
   \<and> dbFault (goodEnv\<lparr>dbFault := Some (Thrown None None)\<rparr>) \<noteq> None
   \<and> POST (goodEnv\<lparr>dbFault := Some (Thrown None None)\<rparr>) []
       = (Failure 500 ''Failed to generate article. Please try again.'', [])"
proof -
  let ?a = "articleDataOf goodEnv ''alice'' plainData ''Tea is a drink.''"
  let ?r = "Json (Generated ''id-1'' ''Tea'' ''Tea is a drink.'' (settingsOf plainData))"
  let ?bad = "goodEnv\<lparr>dbFault := Some (Thrown None None)\<rparr>"
  have v: "generateRequestSchema plainData"
    by (simp add: generateRequestSchema_def plainData_def articleTypeValues_def
        articleSizeValues_def toneValues_def pointOfViewValues_def readabilityValues_def
        aiCleaningValues_def)
  have b: "buildArticlePrompt plainData = Inr (promptBody plainData ''1200-2400'' ''5-8'')"
    by (rule build_small) (simp add: plainData_def)
  have t: "title plainData = ''Tea''"
    by (simp add: plainData_def)
  have g: "POST goodEnv [] = (?r, [?a])"
    by (simp add: POST_def goodEnv_def v b t insertArticle_def)
  have h: "POST ?bad [] = (Failure 500 ''Failed to generate article. Please try again.'', [])"
    by (simp add: POST_def goodEnv_def v b t insertArticle_def handleError_def articleDataOf_def)
  have "isSuccess ?r"
    by (simp add: isSuccess_def)
  moreover have "[?a] \<noteq> ([] :: Article list)"
    by simp
  moreover have "dbFault ?bad \<noteq> None"
    by simp
  ultimately show ?thesis
    using generate_success_needs_both [OF g] generate_success_needs_both [OF h] g h
    by (simp add: articleDataOf_def)
qed

subsection \<open>Filtering the history\<close>

lemma startsWith_prefix: "startsWith hay needle \<longleftrightarrow> prefix needle hay"
  by (induction hay needle rule: startsWith.induct) auto

lemma includes_sublist: "includes' hay needle \<longleftrightarrow> sublist needle hay"
  by (induction hay) (simp_all add: startsWith_prefix sublist_Cons_right)





lemma filterStep_lowered:
  "filterStep articles searchTerm filterType
     = filter (\<lambda>a. (sublist (toLowerCase searchTerm) (toLowerCase (Article.title a))
                     \<or> sublist (toLowerCase searchTerm) (toLowerCase (Article.keywords' a)))
                    \<and> (filterType = ''all'' \<or> articleType (settings a) = filterType)) articles"
  by (simp add: filterStep_def matchesSearch_def matchesType_def includes_sublist)

lemma toLowerCase_ascii:
  "toLowerCase ''guide'' = ''guide''" "toLowerCase ''How-to Guide'' = ''how-to guide''"
  "toLowerCase ''Recipe'' = ''recipe''" "toLowerCase ''food'' = ''food''"
  "toLowerCase ''world'' = ''world''"
  by (simp_all add: toLowerCase_def utf8Length_def codePoint_def lowerPoint_def cased_def
      caseIgnorable_def utf8_def char_of_def bit_Suc_0_iff)

lemma guide_example:
  "filteredArticles lc [guideArticle, aliceArticle] ''guide'' ''all'' sortField sortOrder
     = [guideArticle]"
proof -
  have "includes' ''how-to guide'' ''guide''" "\<not> includes' ''food'' ''guide''"
    "\<not> includes' ''recipe'' ''guide''"
    by simp_all
  then have "filterStep [guideArticle, aliceArticle] ''guide'' ''all'' = [guideArticle]"
    by (simp add: filterStep_def matchesSearch_def matchesType_def guideArticle_def
        aliceArticle_def toLowerCase_ascii)
  then show ?thesis
    by (simp add: filteredArticles_def)
qed

lemma characters_greek:
  "characters kos = [[CHR 0xCE, CHR 0x9A], [CHR 0xCE, CHR 0x9F], [CHR 0xCE, CHR 0xA3]]"
  "characters kosmos =
     [[CHR 0xCE, CHR 0x9A], [CHR 0xCE, CHR 0x9F], [CHR 0xCE, CHR 0xA3],
      [CHR 0xCE, CHR 0x9C], [CHR 0xCE, CHR 0x9F], [CHR 0xCE, CHR 0xA3]]"
  by (simp_all add: kos_def kosmos_def utf8Length_def)

lemma codePoint_greek:
  "codePoint [CHR 0xCE, CHR 0x9A] = 0x39A" "codePoint [CHR 0xCE, CHR 0x9F] = 0x39F"
  "codePoint [CHR 0xCE, CHR 0xA3] = 0x3A3" "codePoint [CHR 0xCE, CHR 0x9C] = 0x39C"
  by (simp_all add: codePoint_def)

lemma utf8_greek:
  "utf8 0x3BA = [CHR 0xCE, CHR 0xBA]" "utf8 0x3BF = [CHR 0xCE, CHR 0xBF]"
  "utf8 0x3C2 = [CHR 0xCF, CHR 0x82]" "utf8 0x3C3 = [CHR 0xCF, CHR 0x83]"
  "utf8 0x3BC = [CHR 0xCE, CHR 0xBC]"
  by (simp_all add: utf8_def char_of_def bit_Suc_0_iff)

lemma lowerPoint_greek:
  "lowerPoint 0x39A = 0x3BA" "lowerPoint 0x39F = 0x3BF" "lowerPoint 0x39C = 0x3BC"
  by (simp_all add: lowerPoint_def)

lemma cased_greek: "cased 0x39A" "cased 0x39F" "cased 0x3A3" "cased 0x39C"
  by (simp_all add: cased_def)

lemma toLowerCase_kosmos:
  "toLowerCase kosmos =
     [CHR 0xCE, CHR 0xBA, CHR 0xCE, CHR 0xBF, CHR 0xCF, CHR 0x83,
      CHR 0xCE, CHR 0xBC, CHR 0xCE, CHR 0xBF, CHR 0xCF, CHR 0x82]"
  by (simp add: toLowerCase_def characters_greek codePoint_greek utf8_greek lowerPoint_greek
      cased_greek)

lemma toLowerCase_kos:
  "toLowerCase kos = [CHR 0xCE, CHR 0xBA, CHR 0xCE, CHR 0xBF, CHR 0xCF, CHR 0x82]"
  by (simp add: toLowerCase_def characters_greek codePoint_greek utf8_greek lowerPoint_greek
      cased_greek)

text \<open>
  C8. The filter should keep an article exactly when its title or its keywords string
  contains the search term ignoring case, and the filter type is \<^verbatim>\<open>all\<close> or equals the
  stored articleType. The code lower-cases both strings as wholes and then looks for the one
  in the other, and lower-casing depends on the position of a capital sigma: the title
  \<^verbatim>\<open>KOSMOS\<close> in Greek capitals contains the search term \<^verbatim>\<open>KOS\<close> letter for letter, but the
  term's sigma stands at its end and becomes a final sigma while the title's first sigma
  does not, so with the filter type \<^verbatim>\<open>all\<close> the article is dropped.
\<close>

theorem final_sigma_title_dropped:
  "sublist kos (Article.title kosmosArticle)
   \<and> toLowerCase (Article.title kosmosArticle)
       = [CHR 0xCE, CHR 0xBA, CHR 0xCE, CHR 0xBF, CHR 0xCF, CHR 0x83,
          CHR 0xCE, CHR 0xBC, CHR 0xCE, CHR 0xBF, CHR 0xCF, CHR 0x82]
   \<and> toLowerCase kos = [CHR 0xCE, CHR 0xBA, CHR 0xCE, CHR 0xBF, CHR 0xCF, CHR 0x82]
   \<and> filteredArticles lc [kosmosArticle] kos ''all'' sortField sortOrder = []"
proof -
  have t: "Article.title kosmosArticle = kosmos" "Article.keywords' kosmosArticle = ''world''"
    by (simp_all add: kosmosArticle_def)
  have "kosmos = kos @ [CHR 0xCE, CHR 0x9C, CHR 0xCE, CHR 0x9F, CHR 0xCE, CHR 0xA3]"
    by (simp add: kosmos_def kos_def)
  then have c: "sublist kos kosmos"
    by (metis sublist_append_rightI)
  have "\<not> includes' (toLowerCase kosmos) (toLowerCase kos)"
    "\<not> includes' (toLowerCase ''world'') (toLowerCase kos)"
    unfolding toLowerCase_kosmos toLowerCase_kos toLowerCase_ascii by simp_all
  then have "filterStep [kosmosArticle] kos ''all'' = []"
    by (simp add: filterStep_def matchesSearch_def t)
  then have "filteredArticles lc [kosmosArticle] kos ''all'' sortField sortOrder = []"
    by (simp add: filteredArticles_def)
  with c show ?thesis
    by (simp add: t toLowerCase_kosmos toLowerCase_kos)
qed

subsection \<open>Sorting the history by size\<close>










end
